theory Spec2Isabelle
  imports Main
begin

section \<open>Data model (models.py)\<close>

text \<open>
  A row of a table carries the primary key the store assigned to it, so \<open>id\<close> is an
  \<open>int\<close> here (it is \<open>None\<close> only on a Python object that was never flushed). The
  fields are those of the two classes; \<open>id\<close> is suffixed because it is a constant of HOL.
  \<open>created_at\<close> is the reading of \<open>datetime.utcnow\<close> at the moment the object is built;
  the clock is an input of the model.
\<close>

type_synonym timestamp = int

record participant =
  id_p :: int
  email :: string
  activity_id :: "int option"
  created_at :: timestamp

record activity =
  id_a :: int
  name :: string
  description :: "string option"
  schedule :: "string option"
  max_participants :: "int option"

text \<open>The store: the two tables, each in row order (a new row goes to the end).\<close>

record db =
  activity_tbl :: "activity list"
  participant_tbl :: "participant list"

section \<open>Errors\<close>

text \<open>
  Every failure of a handler is a value. \<open>HTTPException\<close> carries the status code and the
  detail string of the source. The other three are exceptions of the mapping layer that no
  handler catches (the framework answers 500).
\<close>

datatype error =
    HTTPException nat string
  | MultipleResultsFound
  | AttributeError
  | InvalidRequestError

definition and_then :: "error + 'a \<Rightarrow> ('a \<Rightarrow> error + 'b) \<Rightarrow> error + 'b" where
  "and_then r f = (case r of Inl err \<Rightarrow> Inl err | Inr v \<Rightarrow> f v)"

section \<open>The mapping declared by models.py\<close>

text \<open>
  What the two class bodies declare to the mapping layer: the class name, its column
  attributes, and its relationship attributes with their target class and their
  \<open>back_populates\<close> name.
  \<^item> \<open>Participant\<close> (lines 6 to 10) declares four columns and no relationship. Line 22
    assigns \<open>Participant.activity = Relationship(...)\<close> after the class has been built; an
    assignment to a finished table class stores the value as a plain attribute and maps
    nothing, so \<open>activity\<close> is not a property of the mapped class.
  \<^item> \<open>Activity\<close> (lines 13 to 19) declares five columns and the relationship
    \<open>participants\<close> to \<open>Participant\<close> with \<open>back_populates="activity"\<close>.
\<close>

record relationship =
  target :: string
  back_populates :: "string option"

record mapped_class =
  class_name :: string
  columns :: "string list"
  relationships :: "(string \<times> relationship) list"

definition Participant_mapping :: mapped_class where
  "Participant_mapping =
     \<lparr>class_name = ''Participant'',
      columns = [''id'', ''email'', ''activity_id'', ''created_at''],
      relationships = []\<rparr>"

definition Activity_mapping :: mapped_class where
  "Activity_mapping =
     \<lparr>class_name = ''Activity'',
      columns = [''id'', ''name'', ''description'', ''schedule'', ''max_participants''],
      relationships =
        [(''participants'', \<lparr>target = ''Participant'', back_populates = Some ''activity''\<rparr>)]\<rparr>"

definition registry :: "mapped_class list" where
  "registry = [Participant_mapping, Activity_mapping]"

text \<open>
  The mapping layer configures all mapped classes together, the first time any of them is
  used in a query. A relationship whose \<open>back_populates\<close> names no property of its target
  class makes the configuration fail with \<open>InvalidRequestError\<close>, then and at every later
  use.
\<close>

definition properties :: "mapped_class \<Rightarrow> string list" where
  "properties c = columns c @ map fst (relationships c)"

definition resolves :: "mapped_class list \<Rightarrow> relationship \<Rightarrow> bool" where
  "resolves reg r =
     (case back_populates r of
        None \<Rightarrow> True
      | Some other \<Rightarrow>
          list_ex (\<lambda>t. class_name t = target r \<and> other \<in> set (properties t)) reg)"

definition configure_mappers :: "mapped_class list \<Rightarrow> error + unit" where
  "configure_mappers reg =
     (if list_all (\<lambda>c. list_all (\<lambda>(attr, r). resolves reg r) (relationships c)) reg
      then Inr () else Inl InvalidRequestError)"

section \<open>The query layer used by the handlers\<close>

text \<open>
  \<open>session.exec(select(...))\<close> compiles a query over the mapped classes, which needs the
  mapping configured, and then yields a result object over the selected rows. The
  handlers call four things on that object.
  \<^item> \<open>all()\<close>: the rows (the list itself).
  \<^item> \<open>first()\<close>: the first row, or \<open>None\<close>.
  \<^item> \<open>one_or_none()\<close>: \<open>None\<close> for no row, the row for exactly one, and the exception
    \<open>MultipleResultsFound\<close> for more.
  \<^item> \<open>count()\<close>: the result object of a \<open>select\<close> has the methods \<open>all\<close>, \<open>first\<close>, \<open>one\<close>,
    \<open>one_or_none\<close>, \<open>fetchall\<close>, \<open>fetchmany\<close>, \<open>partitions\<close> and \<open>unique\<close>. It has no
    \<open>count\<close> (that is a method of the legacy \<open>Query\<close> object, which the source never builds),
    so the attribute lookup raises \<open>AttributeError\<close> whatever the rows are.
\<close>

definition session_exec :: "'a list \<Rightarrow> error + 'a list" where
  "session_exec rows = and_then (configure_mappers registry) (\<lambda>_. Inr rows)"

definition result_first :: "'a list \<Rightarrow> 'a option" where
  "result_first rows = (case rows of [] \<Rightarrow> None | r # _ \<Rightarrow> Some r)"

definition result_one_or_none :: "'a list \<Rightarrow> error + 'a option" where
  "result_one_or_none rows =
     (case rows of
        [] \<Rightarrow> Inr None
      | [r] \<Rightarrow> Inr (Some r)
      | _ # _ # _ \<Rightarrow> Inl MultipleResultsFound)"

definition result_count :: "'a list \<Rightarrow> error + int" where
  "result_count rows = Inl AttributeError"

text \<open>
  The primary key of a new row. Both tables are created with a plain integer primary key,
  for which the default store (a local SQLite file, db.py) takes 1 in an empty table and
  the largest key plus one otherwise. Keys are 64-bit: when the largest key is already
  \<open>2^63 - 1\<close> the store draws an unused key at random, which is the input \<open>pick\<close> here.
\<close>

type_synonym rowid_choice = "int list \<Rightarrow> int"

definition next_id :: "rowid_choice \<Rightarrow> int list \<Rightarrow> int" where
  "next_id pick ids =
     (case ids of
        [] \<Rightarrow> 1
      | i # rest \<Rightarrow>
          (if fold max rest i = 9223372036854775807 then pick ids
           else fold max rest i + 1))"

text \<open>
  \<open>session.add(Participant(email=..., activity_id=...))\<close> followed by \<open>commit\<close>: the row is
  appended under a new key, which is returned (it is what \<open>participant.id\<close> reads afterwards).
\<close>

definition insert_participant ::
  "rowid_choice \<Rightarrow> string \<Rightarrow> int \<Rightarrow> timestamp \<Rightarrow> db \<Rightarrow> int \<times> db" where
  "insert_participant pick e a now d =
     (let i = next_id pick (map id_p (participant_tbl d)) in
      (i, d\<lparr>participant_tbl := participant_tbl d @
             [\<lparr>id_p = i, email = e, activity_id = Some a, created_at = now\<rparr>]\<rparr>))"

definition insert_activity ::
  "rowid_choice \<Rightarrow> string \<Rightarrow> string option \<Rightarrow> string option \<Rightarrow> int option \<Rightarrow> db
     \<Rightarrow> int \<times> db" where
  "insert_activity pick n descr sched cap d =
     (let i = next_id pick (map id_a (activity_tbl d)) in
      (i, d\<lparr>activity_tbl := activity_tbl d @
             [\<lparr>id_a = i, name = n, description = descr, schedule = sched,
               max_participants = cap\<rparr>]\<rparr>))"

text \<open>\<open>session.delete(row)\<close> followed by \<open>commit\<close>: a delete by primary key.\<close>

definition delete_participant :: "participant \<Rightarrow> db \<Rightarrow> db" where
  "delete_participant p d =
     d\<lparr>participant_tbl := filter (\<lambda>q. id_p q \<noteq> id_p p) (participant_tbl d)\<rparr>"

text \<open>The rows that the three \<open>where\<close> clauses of app.py select.\<close>

definition select_activity_by_name :: "db \<Rightarrow> string \<Rightarrow> activity list" where
  "select_activity_by_name d n = filter (\<lambda>a. name a = n) (activity_tbl d)"

definition select_participants_of :: "db \<Rightarrow> int \<Rightarrow> participant list" where
  "select_participants_of d a = filter (\<lambda>p. activity_id p = Some a) (participant_tbl d)"

definition select_participant :: "db \<Rightarrow> int \<Rightarrow> string \<Rightarrow> participant list" where
  "select_participant d a e =
     filter (\<lambda>p. activity_id p = Some a \<and> email p = e) (participant_tbl d)"

section \<open>db.py\<close>

text \<open>
  \<open>create_all\<close> works on the table definitions alone (it does not need the mapping
  configured), creates the tables that do not exist yet and touches no row. A table that
  does not exist is an empty one in this model, so the rows come back as they were.
\<close>

definition create_db_and_tables :: "db \<Rightarrow> db" where
  "create_db_and_tables d = d"

section \<open>The handlers (app.py)\<close>

text \<open>
  The body of a handler returns its answer and the store it committed, or the exception
  that left it. An exception leaves the session before any \<open>commit\<close>, so the store is then
  the one the handler started from: the handler itself returns the outcome and the store
  afterwards.
\<close>

record activity_json =
  json_id :: int
  json_name :: string
  json_description :: "string option"
  json_schedule :: "string option"
  json_max_participants :: "int option"
  json_participants :: "string list"

fun list_activities :: "db \<Rightarrow> activity list \<Rightarrow> error + activity_json list" where
  "list_activities d [] = Inr []"
| "list_activities d (a # rest) =
     and_then (session_exec (select_participants_of d (id_a a))) (\<lambda>participants.
     and_then (list_activities d rest) (\<lambda>result.
     Inr (\<lparr>json_id = id_a a, json_name = name a, json_description = description a,
           json_schedule = schedule a, json_max_participants = max_participants a,
           json_participants = map email participants\<rparr> # result)))"

definition get_activities :: "db \<Rightarrow> error + activity_json list" where
  "get_activities d =
     and_then (session_exec (activity_tbl d)) (\<lambda>activities. list_activities d activities)"

record signup_response =
  message :: string
  participant_id :: int

definition signup_body ::
  "rowid_choice \<Rightarrow> db \<Rightarrow> string \<Rightarrow> string \<Rightarrow> timestamp
     \<Rightarrow> error + signup_response \<times> db" where
  "signup_body pick d activity_name e now =
     and_then (session_exec (select_activity_by_name d activity_name)) (\<lambda>rows.
     and_then (result_one_or_none rows) (\<lambda>found.
     case found of
       None \<Rightarrow> Inl (HTTPException 404 ''Activity not found'')
     | Some a \<Rightarrow>
         and_then (session_exec (select_participant d (id_a a) e)) (\<lambda>rows.
         and_then (result_one_or_none rows) (\<lambda>current.
         case current of
           Some p \<Rightarrow> Inl (HTTPException 400 ''Student is already signed up'')
         | None \<Rightarrow>
             and_then
               (case max_participants a of
                  None \<Rightarrow> Inr ()
                | Some cap \<Rightarrow>
                    and_then (session_exec (select_participants_of d (id_a a))) (\<lambda>rows.
                    and_then (result_count rows) (\<lambda>count.
                    if count \<ge> cap then Inl (HTTPException 400 ''Activity is full'')
                    else Inr ())))
               (\<lambda>_. let (i, d') = insert_participant pick e (id_a a) now d in
                    Inr (\<lparr>message = ''Signed up '' @ e @ '' for '' @ activity_name,
                          participant_id = i\<rparr>, d'))))))"

definition signup_for_activity ::
  "rowid_choice \<Rightarrow> db \<Rightarrow> string \<Rightarrow> string \<Rightarrow> timestamp
     \<Rightarrow> (error + signup_response) \<times> db" where
  "signup_for_activity pick d activity_name e now =
     (case signup_body pick d activity_name e now of
        Inl err \<Rightarrow> (Inl err, d)
      | Inr (response, d') \<Rightarrow> (Inr response, d'))"

definition unregister_body :: "db \<Rightarrow> string \<Rightarrow> string \<Rightarrow> error + string \<times> db" where
  "unregister_body d activity_name e =
     and_then (session_exec (select_activity_by_name d activity_name)) (\<lambda>rows.
     and_then (result_one_or_none rows) (\<lambda>found.
     case found of
       None \<Rightarrow> Inl (HTTPException 404 ''Activity not found'')
     | Some a \<Rightarrow>
         and_then (session_exec (select_participant d (id_a a) e)) (\<lambda>rows.
         and_then (result_one_or_none rows) (\<lambda>current.
         case current of
           None \<Rightarrow> Inl (HTTPException 400 ''Student is not signed up for this activity'')
         | Some p \<Rightarrow>
             Inr (''Unregistered '' @ e @ '' from '' @ activity_name,
                  delete_participant p d)))))"

definition unregister_from_activity ::
  "db \<Rightarrow> string \<Rightarrow> string \<Rightarrow> (error + string) \<times> db" where
  "unregister_from_activity d activity_name e =
     (case unregister_body d activity_name e of
        Inl err \<Rightarrow> (Inl err, d)
      | Inr (response, d') \<Rightarrow> (Inr response, d'))"

section \<open>Startup seeding (app.py)\<close>

text \<open>
  The literal table \<open>_legacy_activities\<close>, in the order of the source (a dict iterates in
  insertion order).
\<close>

record payload =
  legacy_description :: string
  legacy_schedule :: string
  legacy_max_participants :: int
  legacy_participants :: "string list"

definition legacy_activities :: "(string \<times> payload) list" where
  "legacy_activities =
    [(''Chess Club'',
      \<lparr>legacy_description = ''Learn strategies and compete in chess tournaments'',
       legacy_schedule = ''Fridays, 3:30 PM - 5:00 PM'',
       legacy_max_participants = 12,
       legacy_participants = [''michael@mergington.edu'', ''daniel@mergington.edu'']\<rparr>),
     (''Programming Class'',
      \<lparr>legacy_description = ''Learn programming fundamentals and build software projects'',
       legacy_schedule = ''Tuesdays and Thursdays, 3:30 PM - 4:30 PM'',
       legacy_max_participants = 20,
       legacy_participants = [''emma@mergington.edu'', ''sophia@mergington.edu'']\<rparr>),
     (''Gym Class'',
      \<lparr>legacy_description = ''Physical education and sports activities'',
       legacy_schedule = ''Mondays, Wednesdays, Fridays, 2:00 PM - 3:00 PM'',
       legacy_max_participants = 30,
       legacy_participants = [''john@mergington.edu'', ''olivia@mergington.edu'']\<rparr>),
     (''Soccer Team'',
      \<lparr>legacy_description = ''Join the school soccer team and compete in matches'',
       legacy_schedule = ''Tuesdays and Thursdays, 4:00 PM - 5:30 PM'',
       legacy_max_participants = 22,
       legacy_participants = [''liam@mergington.edu'', ''noah@mergington.edu'']\<rparr>),
     (''Basketball Team'',
      \<lparr>legacy_description = ''Practice and play basketball with the school team'',
       legacy_schedule = ''Wednesdays and Fridays, 3:30 PM - 5:00 PM'',
       legacy_max_participants = 15,
       legacy_participants = [''ava@mergington.edu'', ''mia@mergington.edu'']\<rparr>),
     (''Art Club'',
      \<lparr>legacy_description = ''Explore your creativity through painting and drawing'',
       legacy_schedule = ''Thursdays, 3:30 PM - 5:00 PM'',
       legacy_max_participants = 15,
       legacy_participants = [''amelia@mergington.edu'', ''harper@mergington.edu'']\<rparr>),
     (''Drama Club'',
      \<lparr>legacy_description = ''Act, direct, and produce plays and performances'',
       legacy_schedule = ''Mondays and Wednesdays, 4:00 PM - 5:30 PM'',
       legacy_max_participants = 20,
       legacy_participants = [''ella@mergington.edu'', ''scarlett@mergington.edu'']\<rparr>),
     (''Math Club'',
      \<lparr>legacy_description = ''Solve challenging problems and participate in math competitions'',
       legacy_schedule = ''Tuesdays, 3:30 PM - 4:30 PM'',
       legacy_max_participants = 10,
       legacy_participants = [''james@mergington.edu'', ''benjamin@mergington.edu'']\<rparr>),
     (''Debate Team'',
      \<lparr>legacy_description = ''Develop public speaking and argumentation skills'',
       legacy_schedule = ''Fridays, 4:00 PM - 5:30 PM'',
       legacy_max_participants = 12,
       legacy_participants = [''charlotte@mergington.edu'', ''henry@mergington.edu'']\<rparr>)]"

text \<open>
  The inner loop adds one participant per listed email. Each \<open>Participant(...)\<close> reads the
  clock once; \<open>clock k\<close> is the reading at the \<open>k\<close>-th object built during this startup,
  and the loops carry \<open>k\<close> along with the store.
\<close>

fun seed_participants ::
  "rowid_choice \<Rightarrow> (nat \<Rightarrow> timestamp) \<Rightarrow> int \<Rightarrow> string list \<Rightarrow> nat \<times> db \<Rightarrow> nat \<times> db" where
  "seed_participants pick clock a [] (k, d) = (k, d)"
| "seed_participants pick clock a (e # es) (k, d) =
     seed_participants pick clock a es
       (k + 1, snd (insert_participant pick e a (clock k) d))"

fun seed_activities ::
  "rowid_choice \<Rightarrow> (nat \<Rightarrow> timestamp) \<Rightarrow> (string \<times> payload) list \<Rightarrow> nat \<times> db
     \<Rightarrow> nat \<times> db" where
  "seed_activities pick clock [] (k, d) = (k, d)"
| "seed_activities pick clock ((n, pl) # rest) (k, d) =
     (let (a, d') = insert_activity pick n (Some (legacy_description pl))
                      (Some (legacy_schedule pl)) (Some (legacy_max_participants pl)) d
      in seed_activities pick clock rest
           (seed_participants pick clock a (legacy_participants pl) (k, d')))"

text \<open>
  \<open>on_startup\<close> returns how it ended and the store afterwards. The schema creation comes
  first and is kept whatever follows; the query for an existing activity comes next, and
  the seeding loop runs only when that query has returned no row.
\<close>

definition on_startup ::
  "rowid_choice \<Rightarrow> (nat \<Rightarrow> timestamp) \<Rightarrow> db \<Rightarrow> (error + unit) \<times> db" where
  "on_startup pick clock d =
     (let d0 = create_db_and_tables d in
      case session_exec (activity_tbl d0) of
        Inl err \<Rightarrow> (Inl err, d0)
      | Inr rows \<Rightarrow>
          (case result_first rows of
             None \<Rightarrow> (Inr (), snd (seed_activities pick clock legacy_activities (0, d0)))
           | Some existing \<Rightarrow> (Inr (), d0)))"

definition empty_db :: db where
  "empty_db = \<lparr>activity_tbl = [], participant_tbl = []\<rparr>"

section \<open>Requests served one after another\<close>

text \<open>
  The four operations as requests, and the store after serving one. Listing only reads.
\<close>

datatype request =
    Startup "nat \<Rightarrow> timestamp"
  | Listing
  | Signup string string timestamp
  | Unregister string string

fun handle :: "rowid_choice \<Rightarrow> db \<Rightarrow> request \<Rightarrow> db" where
  "handle pick d (Startup clock) = snd (on_startup pick clock d)"
| "handle pick d Listing = d"
| "handle pick d (Signup n e now) = snd (signup_for_activity pick d n e now)"
| "handle pick d (Unregister n e) = snd (unregister_from_activity d n e)"

definition serve :: "rowid_choice \<Rightarrow> db \<Rightarrow> request list \<Rightarrow> db" where
  "serve pick d reqs = foldl (handle pick) d reqs"

section \<open>Properties of a store\<close>

text \<open>The capacity invariant: no activity with a capacity has more rows than it.\<close>

definition within_capacity :: "db \<Rightarrow> bool" where
  "within_capacity d \<longleftrightarrow>
     (\<forall>a \<in> set (activity_tbl d).
        case max_participants a of
          None \<Rightarrow> True
        | Some cap \<Rightarrow> int (length (select_participants_of d (id_a a))) \<le> cap)"

text \<open>
  The store that the seeding loop builds from the empty one: what a startup whose first
  query returned would leave behind.
\<close>

definition seeded_db :: "rowid_choice \<Rightarrow> (nat \<Rightarrow> timestamp) \<Rightarrow> db" where
  "seeded_db pick clock = snd (seed_activities pick clock legacy_activities (0, empty_db))"

text \<open>
  A small store for concrete runs: an activity without capacity that has one participant,
  and an activity of capacity 2 that has two, one of them with the same email.
\<close>

definition sample_db :: db where
  "sample_db =
     \<lparr>activity_tbl =
        [\<lparr>id_a = 1, name = ''Hiking Club'', description = None, schedule = None,
          max_participants = None\<rparr>,
         \<lparr>id_a = 2, name = ''Chess Club'', description = None, schedule = None,
          max_participants = Some 2\<rparr>],
      participant_tbl =
        [\<lparr>id_p = 1, email = ''ann@mergington.edu'', activity_id = Some 1, created_at = 0\<rparr>,
         \<lparr>id_p = 2, email = ''ann@mergington.edu'', activity_id = Some 2, created_at = 1\<rparr>,
         \<lparr>id_p = 3, email = ''bob@mergington.edu'', activity_id = Some 2, created_at = 2\<rparr>]\<rparr>"

section \<open>Lemmas\<close>

subsection \<open>The mapping does not configure\<close>

lemma configure_mappers_fails: "configure_mappers registry = Inl InvalidRequestError"
  by (simp add: configure_mappers_def registry_def Participant_mapping_def
      Activity_mapping_def resolves_def properties_def)

lemma session_exec_raises: "session_exec rows = Inl InvalidRequestError"
  by (simp add: session_exec_def and_then_def configure_mappers_fails)

lemma signup_raises:
  "signup_for_activity pick d n e now = (Inl InvalidRequestError, d)"
  by (simp add: signup_for_activity_def signup_body_def and_then_def session_exec_raises)

lemma unregister_raises:
  "unregister_from_activity d n e = (Inl InvalidRequestError, d)"
  by (simp add: unregister_from_activity_def unregister_body_def and_then_def
      session_exec_raises)

lemma get_activities_raises: "get_activities d = Inl InvalidRequestError"
  by (simp add: get_activities_def and_then_def session_exec_raises)

lemma on_startup_raises: "on_startup pick clock d = (Inl InvalidRequestError, d)"
  by (simp add: on_startup_def create_db_and_tables_def session_exec_raises)

lemma handle_keeps_store: "handle pick d req = d"
  by (cases req) (simp_all add: on_startup_raises signup_raises unregister_raises)

lemma serve_keeps_store: "serve pick d reqs = d"
  unfolding serve_def
  by (induction reqs arbitrary: d) (simp_all add: handle_keeps_store)

subsection \<open>The store built by the seeding loop\<close>

lemma next_id_Nil: "next_id pick [] = 1"
  by (simp add: next_id_def)

lemma next_id_Cons:
  "next_id pick (i # rest) =
     (if fold max rest i = 9223372036854775807 then pick (i # rest) else fold max rest i + 1)"
  by (simp add: next_id_def)

lemma insert_participant_rows:
  "insert_participant pick e a now \<lparr>activity_tbl = A, participant_tbl = P\<rparr> =
     (next_id pick (map id_p P),
      \<lparr>activity_tbl = A,
       participant_tbl = P @ [\<lparr>id_p = next_id pick (map id_p P), email = e,
                               activity_id = Some a, created_at = now\<rparr>]\<rparr>)"
  by (simp add: insert_participant_def Let_def)

lemma insert_activity_rows:
  "insert_activity pick n ds sc cap \<lparr>activity_tbl = A, participant_tbl = P\<rparr> =
     (next_id pick (map id_a A),
      \<lparr>activity_tbl = A @ [\<lparr>id_a = next_id pick (map id_a A), name = n, description = ds,
                             schedule = sc, max_participants = cap\<rparr>],
       participant_tbl = P\<rparr>)"
  by (simp add: insert_activity_def Let_def)

lemma seeded_store:
  "seeded_db pick clock =
     \<lparr>activity_tbl =
        [\<lparr>id_a = 1, name = ''Chess Club'',
          description = Some ''Learn strategies and compete in chess tournaments'',
          schedule = Some ''Fridays, 3:30 PM - 5:00 PM'', max_participants = Some 12\<rparr>,
         \<lparr>id_a = 2, name = ''Programming Class'',
          description = Some ''Learn programming fundamentals and build software projects'',
          schedule = Some ''Tuesdays and Thursdays, 3:30 PM - 4:30 PM'',
          max_participants = Some 20\<rparr>,
         \<lparr>id_a = 3, name = ''Gym Class'',
          description = Some ''Physical education and sports activities'',
          schedule = Some ''Mondays, Wednesdays, Fridays, 2:00 PM - 3:00 PM'',
          max_participants = Some 30\<rparr>,
         \<lparr>id_a = 4, name = ''Soccer Team'',
          description = Some ''Join the school soccer team and compete in matches'',
          schedule = Some ''Tuesdays and Thursdays, 4:00 PM - 5:30 PM'',
          max_participants = Some 22\<rparr>,
         \<lparr>id_a = 5, name = ''Basketball Team'',
          description = Some ''Practice and play basketball with the school team'',
          schedule = Some ''Wednesdays and Fridays, 3:30 PM - 5:00 PM'',
          max_participants = Some 15\<rparr>,
         \<lparr>id_a = 6, name = ''Art Club'',
          description = Some ''Explore your creativity through painting and drawing'',
          schedule = Some ''Thursdays, 3:30 PM - 5:00 PM'', max_participants = Some 15\<rparr>,
         \<lparr>id_a = 7, name = ''Drama Club'',
          description = Some ''Act, direct, and produce plays and performances'',
          schedule = Some ''Mondays and Wednesdays, 4:00 PM - 5:30 PM'',
          max_participants = Some 20\<rparr>,
         \<lparr>id_a = 8, name = ''Math Club'',
          description = Some ''Solve challenging problems and participate in math competitions'',
          schedule = Some ''Tuesdays, 3:30 PM - 4:30 PM'', max_participants = Some 10\<rparr>,
         \<lparr>id_a = 9, name = ''Debate Team'',
          description = Some ''Develop public speaking and argumentation skills'',
          schedule = Some ''Fridays, 4:00 PM - 5:30 PM'', max_participants = Some 12\<rparr>],
      participant_tbl =
        [\<lparr>id_p = 1, email = ''michael@mergington.edu'', activity_id = Some 1, created_at = clock 0\<rparr>,
         \<lparr>id_p = 2, email = ''daniel@mergington.edu'', activity_id = Some 1, created_at = clock 1\<rparr>,
         \<lparr>id_p = 3, email = ''emma@mergington.edu'', activity_id = Some 2, created_at = clock 2\<rparr>,
         \<lparr>id_p = 4, email = ''sophia@mergington.edu'', activity_id = Some 2, created_at = clock 3\<rparr>,
         \<lparr>id_p = 5, email = ''john@mergington.edu'', activity_id = Some 3, created_at = clock 4\<rparr>,
         \<lparr>id_p = 6, email = ''olivia@mergington.edu'', activity_id = Some 3, created_at = clock 5\<rparr>,
         \<lparr>id_p = 7, email = ''liam@mergington.edu'', activity_id = Some 4, created_at = clock 6\<rparr>,
         \<lparr>id_p = 8, email = ''noah@mergington.edu'', activity_id = Some 4, created_at = clock 7\<rparr>,
         \<lparr>id_p = 9, email = ''ava@mergington.edu'', activity_id = Some 5, created_at = clock 8\<rparr>,
         \<lparr>id_p = 10, email = ''mia@mergington.edu'', activity_id = Some 5, created_at = clock 9\<rparr>,
         \<lparr>id_p = 11, email = ''amelia@mergington.edu'', activity_id = Some 6, created_at = clock 10\<rparr>,
         \<lparr>id_p = 12, email = ''harper@mergington.edu'', activity_id = Some 6, created_at = clock 11\<rparr>,
         \<lparr>id_p = 13, email = ''ella@mergington.edu'', activity_id = Some 7, created_at = clock 12\<rparr>,
         \<lparr>id_p = 14, email = ''scarlett@mergington.edu'', activity_id = Some 7, created_at = clock 13\<rparr>,
         \<lparr>id_p = 15, email = ''james@mergington.edu'', activity_id = Some 8, created_at = clock 14\<rparr>,
         \<lparr>id_p = 16, email = ''benjamin@mergington.edu'', activity_id = Some 8, created_at = clock 15\<rparr>,
         \<lparr>id_p = 17, email = ''charlotte@mergington.edu'', activity_id = Some 9, created_at = clock 16\<rparr>,
         \<lparr>id_p = 18, email = ''henry@mergington.edu'', activity_id = Some 9, created_at = clock 17\<rparr>]\<rparr>"
  by (simp add: seeded_db_def empty_db_def legacy_activities_def insert_activity_rows
      insert_participant_rows next_id_Nil next_id_Cons eval_nat_numeral)

lemma seeded_within_capacity: "within_capacity (seeded_db pick clock)"
  by (simp add: seeded_store within_capacity_def select_participants_of_def)

lemma empty_within_capacity: "within_capacity empty_db"
  by (simp add: within_capacity_def empty_db_def)

subsection \<open>A startup that finds a row\<close>

lemma session_exec_cases:
  "session_exec rows = Inl InvalidRequestError \<or> session_exec rows = Inr rows"
  by (simp add: session_exec_def and_then_def configure_mappers_def)

lemma startup_populated:
  assumes "activity_tbl d \<noteq> []"
  shows "snd (on_startup pick clock d) = d"
proof -
  from assms obtain a rest where rows: "activity_tbl d = a # rest"
    by (cases "activity_tbl d") auto
  from session_exec_cases [of "activity_tbl d"] show ?thesis
  proof
    assume "session_exec (activity_tbl d) = Inl InvalidRequestError"
    then show ?thesis by (simp add: on_startup_def create_db_and_tables_def)
  next
    assume "session_exec (activity_tbl d) = Inr (activity_tbl d)"
    then show ?thesis
      by (simp add: on_startup_def create_db_and_tables_def rows result_first_def)
  qed
qed

subsection \<open>What the configuration check asks for\<close>

lemma configure_mappers_with_property:
  "configure_mappers
     [Participant_mapping\<lparr>relationships :=
        [(''activity'', \<lparr>target = ''Activity'', back_populates = Some ''participants''\<rparr>)]\<rparr>,
      Activity_mapping] = Inr ()"
  by (simp add: configure_mappers_def Participant_mapping_def Activity_mapping_def
      resolves_def properties_def)

section \<open>The claims\<close>

subsection \<open>Sign-up\<close>

text \<open>
  C1. The claim: when the activity exists, the email is not yet registered for it, and its
  capacity is unset or above the current count, sign-up inserts one row for the activity
  and returns the confirmation with the new id. The handler does not get that far. Its
  first query (app.py line 113) needs the mapping of models.py configured, the
  configuration fails because \<open>Activity.participants\<close> names a property \<open>activity\<close> that
  \<open>Participant\<close> does not have, and the handler ends in \<open>InvalidRequestError\<close> with the store
  as it was. In the sample store Hiking Club exists, has no capacity and has no row for
  bob@mergington.edu; the sign-up inserts nothing.
\<close>

theorem signup_eligible_raises:
  "select_activity_by_name sample_db ''Hiking Club'' =
     [\<lparr>id_a = 1, name = ''Hiking Club'', description = None, schedule = None,
       max_participants = None\<rparr>] \<and>
   select_participant sample_db 1 ''bob@mergington.edu'' = [] \<and>
   signup_for_activity (\<lambda>ids. 0) sample_db ''Hiking Club'' ''bob@mergington.edu'' 7 =
     (Inl InvalidRequestError, sample_db)"
  by (simp add: signup_raises)
    (simp add: sample_db_def select_activity_by_name_def select_participant_def)

text \<open>
  C2. The claim: when the activity exists, the email is not yet registered, and the count
  has reached the capacity, sign-up fails with status 400 and detail \<open>Activity is full\<close>, and
  the store is unchanged. The store is unchanged, but the failure is the
  \<open>InvalidRequestError\<close> of the first query, long before the capacity check: in the sample
  store Chess Club has capacity 2 and two participants, and carol@mergington.edu is not
  one of them.
\<close>

theorem signup_full_activity_raises:
  "select_activity_by_name sample_db ''Chess Club'' =
     [\<lparr>id_a = 2, name = ''Chess Club'', description = None, schedule = None,
       max_participants = Some 2\<rparr>] \<and>
   select_participant sample_db 2 ''carol@mergington.edu'' = [] \<and>
   length (select_participants_of sample_db 2) = 2 \<and>
   signup_for_activity (\<lambda>ids. 0) sample_db ''Chess Club'' ''carol@mergington.edu'' 3 =
     (Inl InvalidRequestError, sample_db) \<and>
   signup_for_activity (\<lambda>ids. 0) sample_db ''Chess Club'' ''carol@mergington.edu'' 3 \<noteq>
     (Inl (HTTPException 400 ''Activity is full''), sample_db)"
  by (simp add: signup_raises)
    (simp add: sample_db_def select_activity_by_name_def select_participant_def
      select_participants_of_def)

text \<open>
  C3. The claim: a sign-up whose activity name matches no stored activity fails with status
  404 and leaves the store as it was. The store is left as it was, but the handler never
  reaches the name lookup: it ends in \<open>InvalidRequestError\<close> (answered as 500), here for a
  name that no activity of the sample store has.
\<close>

theorem signup_unknown_activity_raises:
  "select_activity_by_name sample_db ''Knitting Circle'' = [] \<and>
   signup_for_activity (\<lambda>ids. 0) sample_db ''Knitting Circle'' ''ann@mergington.edu'' 7 =
     (Inl InvalidRequestError, sample_db) \<and>
   signup_for_activity (\<lambda>ids. 0) sample_db ''Knitting Circle'' ''ann@mergington.edu'' 7 \<noteq>
     (Inl (HTTPException 404 ''Activity not found''), sample_db)"
  by (simp add: signup_raises) (simp add: sample_db_def select_activity_by_name_def)

text \<open>
  C4. The claim: a sign-up for an existing activity with an email that already has a row
  for it fails with status 400 (\<open>Student is already signed up\<close>) and leaves the number of
  participants of the activity unchanged. The number is unchanged, but the handler ends in
  \<open>InvalidRequestError\<close> before the duplicate check: in the sample store
  ann@mergington.edu is a participant of Chess Club.
\<close>

theorem signup_duplicate_raises:
  "select_participant sample_db 2 ''ann@mergington.edu'' =
     [\<lparr>id_p = 2, email = ''ann@mergington.edu'', activity_id = Some 2, created_at = 1\<rparr>] \<and>
   signup_for_activity (\<lambda>ids. 0) sample_db ''Chess Club'' ''ann@mergington.edu'' 7 =
     (Inl InvalidRequestError, sample_db) \<and>
   signup_for_activity (\<lambda>ids. 0) sample_db ''Chess Club'' ''ann@mergington.edu'' 7 \<noteq>
     (Inl (HTTPException 400 ''Student is already signed up''), sample_db)"
  by (simp add: signup_raises) (simp add: sample_db_def select_participant_def)

subsection \<open>Unregister\<close>

text \<open>
  C5. The claim: unregister answers 404 when no activity has the name, answers 400
  (\<open>Student is not signed up for this activity\<close>) when the activity has no row for the email,
  and otherwise deletes exactly the matching row and returns a confirmation. The handler
  does none of the three: its first query (app.py line 138) ends in \<open>InvalidRequestError\<close>
  and the store stays as it was. On the sample store: an unknown name, an email without a
  row for Hiking Club, and the row of ann@mergington.edu for Chess Club, which is still
  there afterwards.
\<close>

theorem unregister_raises_in_each_case:
  "unregister_from_activity sample_db ''Knitting Circle'' ''ann@mergington.edu'' =
     (Inl InvalidRequestError, sample_db) \<and>
   unregister_from_activity sample_db ''Hiking Club'' ''bob@mergington.edu'' =
     (Inl InvalidRequestError, sample_db) \<and>
   unregister_from_activity sample_db ''Chess Club'' ''ann@mergington.edu'' =
     (Inl InvalidRequestError, sample_db) \<and>
   select_participant (snd (unregister_from_activity sample_db ''Chess Club''
       ''ann@mergington.edu'')) 2 ''ann@mergington.edu'' =
     [\<lparr>id_p = 2, email = ''ann@mergington.edu'', activity_id = Some 2, created_at = 1\<rparr>]"
  by (simp add: unregister_raises) (simp add: sample_db_def select_participant_def)


subsection \<open>Listing and startup\<close>

text \<open>
  C7. The claim: after startup on an empty store the listing is exactly the nine seeded
  activities, each with its two seeded emails. Startup on the empty store creates the
  tables and then ends in \<open>InvalidRequestError\<close> at its query for an existing activity
  (app.py line 158), before the seeding loop: the store stays empty. The listing after it
  ends in the same exception at app.py line 94 and returns no list.
\<close>

theorem startup_and_listing_raise:
  "on_startup (\<lambda>ids. 0) (\<lambda>k. int k) empty_db = (Inl InvalidRequestError, empty_db) \<and>
   get_activities (snd (on_startup (\<lambda>ids. 0) (\<lambda>k. int k) empty_db)) =
     Inl InvalidRequestError"
  by (simp add: on_startup_raises get_activities_raises)

text \<open>
  C8. Startup runs the schema creation in every case, and when the activity table already
  has a row it does nothing else: the store after startup is the store before it, with no
  activity or participant row added, removed or changed.
\<close>

theorem startup_keeps_populated_store:
  assumes "activity_tbl d \<noteq> []"
  shows "snd (on_startup pick clock d) = create_db_and_tables d \<and>
         snd (on_startup pick clock d) = d"
  using assms by (simp add: startup_populated create_db_and_tables_def)

theorem startup_keeps_populated_store_witness:
  "activity_tbl sample_db \<noteq> [] \<and> snd (on_startup (\<lambda>ids. 0) (\<lambda>k. int k) sample_db) = sample_db"
proof -
  have h: "activity_tbl sample_db \<noteq> []" by (simp add: sample_db_def)
  show ?thesis
    using h startup_keeps_populated_store [OF h, of "\<lambda>ids. 0" "\<lambda>k. int k"] by blast
qed

subsection \<open>The capacity invariant\<close>

text \<open>
  C9. Serving any sequence of startups, listings, sign-ups and unregisters one after
  another keeps every activity with a capacity within it, from the store that startup
  leaves on an empty store as well as from the store that the seeding loop builds (the
  nine activities with two participants each).
\<close>

theorem capacity_never_exceeded:
  "within_capacity (serve pick (snd (on_startup pick clock empty_db)) reqs) \<and>
   within_capacity (serve pick (seeded_db pick clock) reqs)"
  by (simp add: serve_keeps_store on_startup_raises seeded_within_capacity
      empty_within_capacity)

theorem capacity_never_exceeded_witness:
  "int (length (select_participants_of
     (serve (\<lambda>ids. 0) (seeded_db (\<lambda>ids. 0) (\<lambda>k. int k))
        [Unregister ''Chess Club'' ''michael@mergington.edu'',
         Signup ''Chess Club'' ''new@mergington.edu'' 100,
         Listing,
         Startup (\<lambda>k. 0)]) 1)) \<le> 12"
proof -
  let ?reqs = "[Unregister ''Chess Club'' ''michael@mergington.edu'',
         Signup ''Chess Club'' ''new@mergington.edu'' 100, Listing, Startup (\<lambda>k. 0)]"
  let ?d = "serve (\<lambda>ids. 0) (seeded_db (\<lambda>ids. 0) (\<lambda>k. int k)) ?reqs"
  let ?a = "\<lparr>id_a = 1, name = ''Chess Club'',
    description = Some ''Learn strategies and compete in chess tournaments'',
    schedule = Some ''Fridays, 3:30 PM - 5:00 PM'', max_participants = Some 12\<rparr>"
  have "?a \<in> set (activity_tbl ?d)"
    by (simp add: serve_keeps_store seeded_store)
  moreover have "within_capacity ?d"
    using capacity_never_exceeded [of "\<lambda>ids. 0" "\<lambda>k. int k" ?reqs] by blast
  ultimately have "case max_participants ?a of None \<Rightarrow> True
        | Some cap \<Rightarrow> int (length (select_participants_of ?d (id_a ?a))) \<le> cap"
    unfolding within_capacity_def by blast
  then show ?thesis by simp
qed

subsection \<open>The email parameter\<close>

text \<open>
  C10. The claim: the email is not validated, so any string, the empty one included, is
  signed up and stored as it is when the activity exists, the string is not yet registered
  for it and the activity is below its capacity. The handler never looks into the email,
  but it stores none either: in the sample store the empty email for Hiking Club, which
  has no capacity and no row for it, ends in \<open>InvalidRequestError\<close> and the participant
  table is as before.
\<close>

theorem signup_empty_email_raises:
  "select_participant sample_db 1 [] = [] \<and>
   signup_for_activity (\<lambda>ids. 0) sample_db ''Hiking Club'' [] 7 =
     (Inl InvalidRequestError, sample_db) \<and>
   [] \<notin> set (map email (participant_tbl
     (snd (signup_for_activity (\<lambda>ids. 0) sample_db ''Hiking Club'' [] 7))))"
  by (simp add: signup_raises) (simp add: sample_db_def select_participant_def)

end
